theory Spec2Isabelle
  imports Main
begin

section \<open>Calls, markup and the functions of the repository\<close>

subsection \<open>Calls that may throw and may change the world\<close>

text \<open>
  The repository consists of four small TypeScript modules: the route configuration
  \<^verbatim>\<open>routes.ts\<close>, the application shell \<^verbatim>\<open>App\<close>, the page \<^verbatim>\<open>pages/Home.tsx\<close> and the route
  module \<^verbatim>\<open>routes/home.tsx\<close> (with its \<^verbatim>\<open>meta\<close> function). Several properties of interest
  say that these functions do not throw and do not touch anything outside their result.
  To be able to say so, a call is embedded as a function from the world before the call
  to either a thrown error or the returned value together with the world after it.
  A JavaScript \<^verbatim>\<open>return e\<close> of a side-effect free expression is \<open>return\<close>.
\<close>

datatype error = Thrown string

type_synonym ('a, 'w) js = "'w \<Rightarrow> error + 'a \<times> 'w"

definition return :: "'a \<Rightarrow> ('a, 'w) js" where
  "return v = (\<lambda>w. Inr (v, w))"

definition bind :: "('a, 'w) js \<Rightarrow> ('a \<Rightarrow> ('b, 'w) js) \<Rightarrow> ('b, 'w) js" where
  "bind c f = (\<lambda>w. case c w of Inl e \<Rightarrow> Inl e | Inr (v, w') \<Rightarrow> f v w')"

fun value_of :: "error + 'a \<times> 'w \<Rightarrow> 'a option" where
  "value_of (Inl e) = None"
| "value_of (Inr (v, w)) = Some v"

subsection \<open>Markup\<close>

text \<open>
  A JSX expression is a tree. An element is tagged either with the name of a host
  element (\<^verbatim>\<open><div>\<close>, \<^verbatim>\<open><h1>\<close>) or with the identifier of a component (\<^verbatim>\<open><Button>\<close>,
  \<^verbatim>\<open><Home />\<close>); it carries its props in source order and its children. JSX text is
  kept as the string the JSX whitespace rules produce (lines trimmed, line breaks
  dropped). A prop is a string or an event handler, a function on the world.
  The three router components used by \<^verbatim>\<open>App\<close> get constructors of their own, with the
  props \<^verbatim>\<open>path\<close> and \<^verbatim>\<open>element\<close> of \<^verbatim>\<open><Route>\<close> as arguments.
\<close>

datatype tag = Host string | Component string

datatype 'w prop_value = Str string | Handler "'w \<Rightarrow> 'w"

datatype 'w jsx =
    Element tag "(string \<times> 'w prop_value) list" "'w jsx list"
  | Text string
  | BrowserRouter "'w jsx list"
  | Routes "'w jsx list"
  | Route string "'w jsx"

subsection \<open>\<^verbatim>\<open>src/pages/Home.tsx\<close>\<close>

text \<open>
  \<^verbatim>\<open>export default function Home()\<close> declares no parameter; the argument \<open>props\<close> is
  what the rendering framework passes to every function component.
\<close>

definition Home :: "'p \<Rightarrow> ('w jsx, 'w) js" where
  "Home props = return
     (Element (Host ''div'') [(''className'', Str ''min-h-screen bg-background'')]
       [Element (Host ''main'') [(''className'', Str ''pt-16 p-4 container mx-auto'')]
         [Element (Host ''h1'') [(''className'', Str ''text-4xl font-bold mb-4'')]
            [Text ''My Easel App''],
          Element (Host ''p'') [(''className'', Str ''text-muted-foreground mb-6'')]
            [Text ''Replace this with your own content.''],
          Element (Component ''Button'') [] [Text ''Click me'']]])"

subsection \<open>\<^verbatim>\<open>routes/home.tsx\<close>\<close>

text \<open>
  The route module of the home route exports \<^verbatim>\<open>meta\<close> and a second component that is
  also called \<^verbatim>\<open>Home\<close>; it is \<open>home_Home\<close> here. The parameter pattern \<^verbatim>\<open>{}\<close> of
  \<^verbatim>\<open>meta\<close> binds nothing, and on the declared parameter type \<^verbatim>\<open>Route.MetaArgs\<close> (an object
  type, whose generated declaration is not among the sources) it always succeeds, so the
  argument is a value of an arbitrary type \<open>'args\<close>. A meta descriptor is an object with
  string fields, kept as its list of fields in source order.
\<close>

definition meta :: "'args \<Rightarrow> ((string \<times> string) list list, 'w) js" where
  "meta args = return
     [[(''title'', ''My Easel App'')],
      [(''name'', ''description''), (''content'', ''Welcome to My Easel App!'')]]"

definition home_Home :: "'p \<Rightarrow> ('w jsx, 'w) js" where
  "home_Home props = return
     (Element (Host ''div'') []
       [Text ''Replace this with your own content.'',
        Element (Component ''Button'') [] [Text ''Click me'']])"

subsection \<open>The application shell \<^verbatim>\<open>App\<close>\<close>

definition App :: "'p \<Rightarrow> ('w jsx, 'w) js" where
  "App props = return
     (BrowserRouter
       [Routes
         [Route ''/'' (Element (Component ''Home'') [] [])]])"

text \<open>
  The identifiers in scope of the JSX of \<^verbatim>\<open>App\<close>: the module imports \<^verbatim>\<open>Home\<close> from
  \<^verbatim>\<open>@/pages/Home\<close>, which is the component \<open>Home\<close> above. (The router components are
  constructors of the markup.)
\<close>

definition App_scope :: "string \<Rightarrow> ((string \<times> 'w prop_value) list \<Rightarrow> ('w jsx, 'w) js) option" where
  "App_scope name = (if name = ''Home'' then Some Home else None)"

subsection \<open>The route configuration \<^verbatim>\<open>routes.ts\<close>\<close>

text \<open>
  An entry of the route configuration is a call of one of the helpers of
  \<^verbatim>\<open>@react-router/dev/routes\<close>: \<^verbatim>\<open>index(file)\<close> or \<^verbatim>\<open>route(path, file)\<close>. (The helpers
  \<^verbatim>\<open>layout\<close> and \<^verbatim>\<open>prefix\<close> are imported as well; like \<^verbatim>\<open>route\<close> they occur in comments only.)
  The exported array literal holds one call of \<^verbatim>\<open>index\<close>; every other line of it is a
  comment.
\<close>

datatype RouteConfigEntry = index string | route string string

definition routes :: "(RouteConfigEntry list, 'w) js" where
  "routes = return [index ''./routes/home.tsx'']"

text \<open>
  The module that the configuration names: \<^verbatim>\<open>./routes/home.tsx\<close> is the route module above
  (it takes its types from \<^verbatim>\<open>./+types/home\<close>), and its default export is \<open>home_Home\<close>.
\<close>

definition route_module :: "string \<Rightarrow> ((string \<times> 'w prop_value) list \<Rightarrow> ('w jsx, 'w) js) option" where
  "route_module f = (if f = ''./routes/home.tsx'' then Some home_Home else None)"

section \<open>What the frameworks do with these values\<close>

subsection \<open>Route resolution\<close>

text \<open>
  Modelled from the spec: the resolution of a location against a route table, which the
  routing library does and the repository does not contain. The spec calls the table an
  ordered sequence of path-to-component associations in which a path resolves to a
  component. Resolving walks the table in order and yields the component of the first
  entry whose path matches the location; the matching of a location against a route path
  is a parameter \<open>matchPath\<close>.
\<close>

fun resolve :: "(string \<Rightarrow> string \<Rightarrow> bool) \<Rightarrow> (string \<times> 'c) list \<Rightarrow> string \<Rightarrow> 'c option" where
  "resolve matchPath [] location = None"
| "resolve matchPath ((p, c) # t) location =
     (if matchPath p location then Some c else resolve matchPath t location)"

text \<open>
  Modelled from the spec: the path matching of the routing library, which is not part
  of the repository. The spec describes the route table as a static mapping of string
  keys to the component responsible for rendering that path, so a location matches a
  route path when the two are the same string.
\<close>

definition literal_path :: "string \<Rightarrow> string \<Rightarrow> bool" where
  "literal_path p location = (p = location)"

text \<open>The table that the \<^verbatim>\<open><Route>\<close> children of a \<^verbatim>\<open><Routes>\<close> element make up.\<close>

fun route_table :: "'w jsx list \<Rightarrow> (string \<times> 'w jsx) list" where
  "route_table [] = []"
| "route_table (Route p e # cs) = (p, e) # route_table cs"
| "route_table (c # cs) = route_table cs"

text \<open>
  Modelled from the spec: what the router components of the routing library put on the
  screen at a location. In the spec's words the root shell mounts, the router matches the
  registered path and the page component renders: \<^verbatim>\<open><BrowserRouter>\<close> hands the location
  of the browser to its children, \<^verbatim>\<open><Routes>\<close> shows the element of the route it resolves,
  and nothing when it resolves none.
\<close>

fun mounted :: "(string \<Rightarrow> string \<Rightarrow> bool) \<Rightarrow> string \<Rightarrow> 'w jsx \<Rightarrow> 'w jsx list" where
  "mounted matchPath location (BrowserRouter cs) = concat (map (mounted matchPath location) cs)"
| "mounted matchPath location (Routes cs) =
     (case resolve matchPath (route_table cs) location of None \<Rightarrow> [] | Some e \<Rightarrow> [e])"
| "mounted matchPath location e = [e]"

text \<open>The route table of a tree: the tables of the \<^verbatim>\<open><Routes>\<close> elements under its router.\<close>

fun route_entries :: "'w jsx \<Rightarrow> (string \<times> 'w jsx) list" where
  "route_entries (BrowserRouter cs) = concat (map route_entries cs)"
| "route_entries (Routes cs) = route_table cs"
| "route_entries e = []"

text \<open>
  Modelled from the spec: the location at which the routing library serves an entry of
  the route configuration, which is not part of the repository. The spec reads the
  configuration as the table with the one entry \<^verbatim>\<open>/\<close> \<open>\<rightarrow>\<close> Home: an index entry is served
  at the root location, an entry with a path below it (the guide of the repository links
  the index route as \<^verbatim>\<open>/\<close> and \<^verbatim>\<open>route("about", ...)\<close> as \<^verbatim>\<open>/about\<close>).
\<close>

fun served_at :: "RouteConfigEntry \<Rightarrow> string" where
  "served_at (index f) = ''/''"
| "served_at (route p f) = ''/'' @ p"

fun entry_file :: "RouteConfigEntry \<Rightarrow> string" where
  "entry_file (index f) = f"
| "entry_file (route p f) = f"

definition config_table :: "RouteConfigEntry list \<Rightarrow> (string \<times> string) list" where
  "config_table es = map (\<lambda>e. (served_at e, entry_file e)) es"

subsection \<open>Invoking components\<close>

text \<open>
  Modelled from the spec: the rendering framework's call of a page component, which is
  not part of the repository. Mounting an element whose tag is a component in scope
  calls that component with the props of the element; any other element is left as it
  is (the button component is not among the sources, so a \<^verbatim>\<open><Button>\<close> element stays a
  leaf of the markup).
\<close>

fun invoke :: "(string \<Rightarrow> ((string \<times> 'w prop_value) list \<Rightarrow> ('w jsx, 'w) js) option) \<Rightarrow> 'w jsx \<Rightarrow> ('w jsx, 'w) js" where
  "invoke scope (Element (Component n) ps cs) =
     (case scope n of Some f \<Rightarrow> f ps | None \<Rightarrow> return (Element (Component n) ps cs))"
| "invoke scope e = return e"

fun invoke_all :: "(string \<Rightarrow> ((string \<times> 'w prop_value) list \<Rightarrow> ('w jsx, 'w) js) option) \<Rightarrow> 'w jsx list \<Rightarrow> ('w jsx list, 'w) js" where
  "invoke_all scope [] = return []"
| "invoke_all scope (e # es) =
     bind (invoke scope e) (\<lambda>m. bind (invoke_all scope es) (\<lambda>ms. return (m # ms)))"

text \<open>
  Rendering the root application at a location: call \<^verbatim>\<open>App\<close>, let the router pick what
  is mounted, and call the components picked.
\<close>

definition render_App :: "(string \<Rightarrow> string \<Rightarrow> bool) \<Rightarrow> string \<Rightarrow> ('w jsx list, 'w) js" where
  "render_App matchPath location =
     bind (App ([] :: (string \<times> 'w prop_value) list)) (\<lambda>tree. invoke_all App_scope (mounted matchPath location tree))"

subsection \<open>Reading markup\<close>

fun children :: "'w jsx \<Rightarrow> 'w jsx list" where
  "children (Element t ps cs) = cs"
| "children (Text s) = []"
| "children (BrowserRouter cs) = cs"
| "children (Routes cs) = cs"
| "children (Route p e) = [e]"

fun descendants :: "'w jsx \<Rightarrow> 'w jsx list" where
  "descendants (Element t ps cs) = Element t ps cs # concat (map descendants cs)"
| "descendants (Text s) = [Text s]"
| "descendants (BrowserRouter cs) = BrowserRouter cs # concat (map descendants cs)"
| "descendants (Routes cs) = Routes cs # concat (map descendants cs)"
| "descendants (Route p e) = Route p e # descendants e"

fun node_at :: "'w jsx \<Rightarrow> nat list \<Rightarrow> 'w jsx option" where
  "node_at e [] = Some e"
| "node_at e (i # path) =
     (if i < length (children e) then node_at (children e ! i) path else None)"

fun is_heading :: "'w jsx \<Rightarrow> bool" where
  "is_heading (Element (Host t) ps cs) = (t \<in> set [''h1'', ''h2'', ''h3'', ''h4'', ''h5'', ''h6''])"
| "is_heading e = False"

fun is_button :: "'w jsx \<Rightarrow> bool" where
  "is_button (Element (Component n) ps cs) = (n = ''Button'')"
| "is_button (Element (Host t) ps cs) = (t = ''button'')"
| "is_button e = False"

fun text_of :: "'w jsx \<Rightarrow> string" where
  "text_of (Text s) = s"
| "text_of (Element t ps cs) = concat (map text_of cs)"
| "text_of (BrowserRouter cs) = concat (map text_of cs)"
| "text_of (Routes cs) = concat (map text_of cs)"
| "text_of (Route p e) = text_of e"

definition headings :: "'w jsx \<Rightarrow> 'w jsx list" where
  "headings m = filter is_heading (descendants m)"

definition buttons :: "'w jsx \<Rightarrow> 'w jsx list" where
  "buttons m = filter is_button (descendants m)"

fun texts :: "'w jsx list \<Rightarrow> string list" where
  "texts [] = []"
| "texts (Text s # es) = s # texts es"
| "texts (e # es) = texts es"

subsection \<open>Click events\<close>

text \<open>
  Modelled from the spec: the delivery of a click by the rendering framework, which is
  not part of the repository; the spec ties the effect of a click to the handler that is
  attached. A click handler is attached to an element by its \<^verbatim>\<open>onClick\<close> prop. A click
  delivered to the node at a path of child indices runs the handler of that node and then
  the handlers of its ancestors, innermost first, each on the world the one before left
  behind. A path that leads to no node delivers nothing.
\<close>

fun onClick :: "'w jsx \<Rightarrow> ('w \<Rightarrow> 'w) option" where
  "onClick (Element t ps cs) =
     (case map_of ps ''onClick'' of Some (Handler h) \<Rightarrow> Some h | _ \<Rightarrow> None)"
| "onClick e = None"

fun click_handlers :: "'w jsx \<Rightarrow> nat list \<Rightarrow> ('w \<Rightarrow> 'w) list" where
  "click_handlers e [] = (case onClick e of Some h \<Rightarrow> [h] | None \<Rightarrow> [])"
| "click_handlers e (i # path) =
     (if i < length (children e) then click_handlers (children e ! i) path else [])
       @ (case onClick e of Some h \<Rightarrow> [h] | None \<Rightarrow> [])"

definition click :: "'w jsx \<Rightarrow> nat list \<Rightarrow> 'w \<Rightarrow> 'w" where
  "click e target w =
     (case node_at e target of
        None \<Rightarrow> w
      | Some n \<Rightarrow> fold (\<lambda>h. h) (click_handlers e target) w)"

section \<open>Properties\<close>

subsection \<open>What the functions return\<close>

lemma Home_returns:
  "Home props w = Inr (Element (Host ''div'') [(''className'', Str ''min-h-screen bg-background'')]
       [Element (Host ''main'') [(''className'', Str ''pt-16 p-4 container mx-auto'')]
         [Element (Host ''h1'') [(''className'', Str ''text-4xl font-bold mb-4'')]
            [Text ''My Easel App''],
          Element (Host ''p'') [(''className'', Str ''text-muted-foreground mb-6'')]
            [Text ''Replace this with your own content.''],
          Element (Component ''Button'') [] [Text ''Click me'']]], w)"
  by (simp add: Home_def return_def)

lemma home_Home_returns:
  "home_Home props w = Inr (Element (Host ''div'') []
       [Text ''Replace this with your own content.'',
        Element (Component ''Button'') [] [Text ''Click me'']], w)"
  by (simp add: home_Home_def return_def)

lemma App_returns:
  "App props w = Inr (BrowserRouter [Routes [Route ''/'' (Element (Component ''Home'') [] [])]], w)"
  by (simp add: App_def return_def)

lemma meta_returns:
  "meta args w = Inr ([[(''title'', ''My Easel App'')],
      [(''name'', ''description''), (''content'', ''Welcome to My Easel App!'')]], w)"
  by (simp add: meta_def return_def)

lemma routes_returns:
  "routes w = Inr ([index ''./routes/home.tsx''], w)"
  by (simp add: routes_def return_def)

subsection \<open>Route resolution\<close>

lemma resolve_append:
  "resolve m (t @ u) l = (case resolve m t l of None \<Rightarrow> resolve m u l | Some c \<Rightarrow> Some c)"
  by (induction t) auto

lemma resolve_unmatched:
  "list_all (\<lambda>e. \<not> m (fst e) l) t \<Longrightarrow> resolve m t l = None"
  by (induction t) auto

lemma literal_unmapped:
  "p \<notin> set (map fst t) \<Longrightarrow> list_all (\<lambda>e. \<not> literal_path (fst e) p) t"
  by (induction t) (auto simp: literal_path_def)

lemma render_App_matched:
  "m ''/'' l \<Longrightarrow>
     \<exists>page. Home ([] :: (string \<times> 'w prop_value) list) w = Inr (page, w)
          \<and> render_App m l w = Inr ([page], w)"
  by (simp add: render_App_def bind_def App_returns App_scope_def Home_returns return_def)

lemma render_App_unmatched:
  "\<not> m ''/'' l \<Longrightarrow> render_App m l w = Inr ([], w)"
  by (simp add: render_App_def bind_def App_returns return_def)

subsection \<open>Clicks on markup without handlers\<close>

lemma no_handler_no_click:
  "list_all (\<lambda>n. onClick n = None) (descendants e) \<Longrightarrow> click_handlers e target = []"
proof (induction target arbitrary: e)
  case Nil
  then show ?case by (cases e) auto
next
  case (Cons i path)
  have self: "onClick e = None" using Cons.prems by (cases e) auto
  show ?case
  proof (cases "i < length (children e)")
    case True
    then have "children e ! i \<in> set (children e)" by simp
    then have "set (descendants (children e ! i)) \<subseteq> set (descendants e)"
      by (cases e) auto
    with Cons.prems have "list_all (\<lambda>n. onClick n = None) (descendants (children e ! i))"
      by (auto simp: list_all_iff)
    from Cons.IH [OF this] self True show ?thesis by simp
  next
    case False
    with self show ?thesis by simp
  qed
qed

lemma quiet_click:
  "list_all (\<lambda>n. onClick n = None) (descendants e) \<Longrightarrow> click e target s = s"
  by (simp add: click_def no_handler_no_click split: option.split)

subsection \<open>The application\<close>

text \<open>
  C1. Rendering the root application at the location \<^verbatim>\<open>/\<close> mounts exactly one page
  component. The route table of \<^verbatim>\<open>App\<close> registers the element \<^verbatim>\<open><Home />\<close> at the path
  \<^verbatim>\<open>/\<close>, the router mounts this element and nothing else, the identifier refers to the
  component \<open>Home\<close> of \<^verbatim>\<open>pages/Home.tsx\<close>, and the one page rendered is the markup that
  \<open>Home\<close> returns. The button is part of that markup: it is the third child of the
  \<^verbatim>\<open><main>\<close> element, and the only button of the page.
\<close>

theorem App_mounts_Home_at_root:
  "\<exists>tree page.
      App props w = Inr (tree, w)
    \<and> route_entries tree = [(''/'', Element (Component ''Home'') [] [])]
    \<and> mounted literal_path ''/'' tree = [Element (Component ''Home'') [] []]
    \<and> App_scope ''Home'' = Some (Home :: (string \<times> 'w prop_value) list \<Rightarrow> ('w jsx, 'w) js)
    \<and> render_App literal_path ''/'' w = Inr ([page], w)
    \<and> Home props' w = Inr (page, w)
    \<and> buttons page = [Element (Component ''Button'') [] [Text ''Click me'']]
    \<and> node_at page [0, 2] = Some (Element (Component ''Button'') [] [Text ''Click me''])"
  by (simp add: App_returns Home_returns render_App_def bind_def return_def App_scope_def
      literal_path_def buttons_def)


text \<open>
  The component \<open>home_Home\<close> of the route module \<^verbatim>\<open>routes/home.tsx\<close> returns markup without
  any heading element.
\<close>

theorem home_Home_heading_counterexample:
  "map_option headings (value_of ((home_Home :: unit \<Rightarrow> (unit jsx, unit) js) () ())) = Some []"
  by (simp add: home_Home_returns headings_def)

text \<open>
  C2, amended. The markup returned by \<open>Home\<close> of \<^verbatim>\<open>pages/Home.tsx\<close> contains a heading
  element (one, with the text "My Easel App"), the literal text "Replace this with your
  own content." and exactly one button, whose label is "Click me". The markup returned by
  \<open>home_Home\<close> of \<^verbatim>\<open>routes/home.tsx\<close> contains the same literal text and exactly one
  button with the label "Click me", and no heading element.
\<close>

theorem Home_markup_contents:
  "(\<exists>page. Home props w = Inr (page, w)
      \<and> map text_of (headings page) = [''My Easel App'']
      \<and> ''Replace this with your own content.'' \<in> set (texts (descendants page))
      \<and> buttons page = [Element (Component ''Button'') [] [Text ''Click me'']]
      \<and> map text_of (buttons page) = [''Click me''])
 \<and> (\<exists>page. home_Home props' w' = Inr (page, w')
      \<and> headings page = []
      \<and> ''Replace this with your own content.'' \<in> set (texts (descendants page))
      \<and> buttons page = [Element (Component ''Button'') [] [Text ''Click me'']]
      \<and> map text_of (buttons page) = [''Click me''])"
  by (simp add: Home_returns home_Home_returns headings_def buttons_def)

text \<open>
  C3. For every route table \<open>t\<close>, every path \<open>p\<close> that \<open>t\<close> does not map yet and every
  component \<open>c\<close>: the table did not resolve \<open>p\<close>; after appending the entry \<open>(p, c)\<close>,
  resolving \<open>p\<close> yields \<open>c\<close>; and every path \<open>q\<close> other than \<open>p\<close> resolves to what it
  resolved to before, so the new entry affects no other path.
\<close>

theorem resolve_appended_entry:
  assumes "p \<notin> set (map fst t)"
  shows "resolve literal_path t p = None
       \<and> resolve literal_path (t @ [(p, c)]) p = Some c
       \<and> (\<forall>q. q \<noteq> p \<longrightarrow> resolve literal_path (t @ [(p, c)]) q = resolve literal_path t q)"
proof -
  have none: "resolve literal_path t p = None"
    using assms by (simp add: literal_unmapped resolve_unmatched)
  have hit: "resolve literal_path (t @ [(p, c)]) p = Some c"
    by (simp add: resolve_append none literal_path_def)
  have frame: "resolve literal_path (t @ [(p, c)]) q = resolve literal_path t q" if "q \<noteq> p" for q
    using that by (simp add: resolve_append literal_path_def split: option.split)
  from none hit frame show ?thesis by blast
qed

theorem resolve_appended_entry_witness:
  "resolve literal_path [(''/'', ''Home'')] ''/about'' = None
 \<and> resolve literal_path ([(''/'', ''Home'')] @ [(''/about'', ''About'')]) ''/about'' = Some ''About''
 \<and> resolve literal_path ([(''/'', ''Home'')] @ [(''/about'', ''About'')]) ''/''
     = resolve literal_path [(''/'', ''Home'')] ''/''
 \<and> resolve literal_path [(''/'', ''Home'')] ''/'' = Some ''Home''"
proof -
  have fresh: "''/about'' \<notin> set (map fst [(''/'', ''Home'')])" by simp
  have other: "''/'' \<noteq> ''/about''" by simp
  from resolve_appended_entry [OF fresh, of "''About''"] other
  show ?thesis by (simp add: literal_path_def)
qed

text \<open>
  C4. The route tables of the repository are fixed data: neither depends on an argument
  or on the world. The route configuration of \<^verbatim>\<open>routes.ts\<close> is the sequence with the single
  entry \<^verbatim>\<open>index("./routes/home.tsx")\<close>, which associates the path \<^verbatim>\<open>/\<close> with the module whose
  default export is the Home component \<open>home_Home\<close>; the table of \<^verbatim>\<open>App\<close> is the sequence with
  the single entry that associates the path \<^verbatim>\<open>/\<close> with the element \<^verbatim>\<open><Home />\<close>, whose tag is
  the Home component \<open>Home\<close>.
\<close>

theorem route_tables_have_one_entry:
  "(\<exists>cfg. routes w = Inr (cfg, w)
      \<and> cfg = [index ''./routes/home.tsx'']
      \<and> length cfg = 1
      \<and> config_table cfg = [(''/'', ''./routes/home.tsx'')])
 \<and> (\<exists>tree. App props w' = Inr (tree, w')
      \<and> length (route_entries tree) = 1
      \<and> route_entries tree = [(''/'', Element (Component ''Home'') [] [])])
 \<and> route_module ''./routes/home.tsx''
      = Some (home_Home :: (string \<times> 'w prop_value) list \<Rightarrow> ('w jsx, 'w) js)
 \<and> App_scope ''Home'' = Some (Home :: (string \<times> 'w prop_value) list \<Rightarrow> ('w jsx, 'w) js)"
  by (simp add: routes_returns App_returns config_table_def route_module_def App_scope_def)

text \<open>
  C5. A click delivered to the button of the Home page leaves the world as it was: the
  button element carries no \<^verbatim>\<open>onClick\<close> prop, no handler runs on the way from the button to
  the root of the page, and the state after the click is the state before it. This holds
  for the page of \<^verbatim>\<open>pages/Home.tsx\<close> (the button is at child path 0, 2) and for the one of
  \<^verbatim>\<open>routes/home.tsx\<close> (child path 1), and in fact for a click on any node of either page.
\<close>

theorem click_on_button_changes_nothing:
  "(\<exists>page. Home props w = Inr (page, w)
      \<and> node_at page [0, 2] = Some (Element (Component ''Button'') [] [Text ''Click me''])
      \<and> click_handlers page [0, 2] = []
      \<and> click page [0, 2] s = s
      \<and> (\<forall>target. click page target s = s))
 \<and> (\<exists>page. home_Home props' w' = Inr (page, w')
      \<and> node_at page [1] = Some (Element (Component ''Button'') [] [Text ''Click me''])
      \<and> click_handlers page [1] = []
      \<and> click page [1] s = s
      \<and> (\<forall>target. click page target s = s))
 \<and> onClick (Element (Component ''Button'') [] [Text ''Click me'']) = (None :: ('w \<Rightarrow> 'w) option)"
  by (simp add: Home_returns home_Home_returns quiet_click)

text \<open>
  C6. The Home page component is a pure function of no inputs: two calls, with whatever
  props and in whatever worlds, return the same markup, and each call leaves its world
  as it found it. This holds for both components called \<^verbatim>\<open>Home\<close>.
\<close>

theorem Home_is_pure:
  "(\<exists>page. Home p1 w1 = Inr (page, w1) \<and> Home p2 w2 = Inr (page, w2))
 \<and> (\<exists>page. home_Home p1 w1 = Inr (page, w1) \<and> home_Home p2 w2 = Inr (page, w2))"
  by (simp add: Home_returns home_Home_returns)

text \<open>
  C7. Every operation of the repository returns a value and never throws, for every
  argument and in every world, and leaves the world unchanged: \<^verbatim>\<open>App\<close>, both \<^verbatim>\<open>Home\<close>
  components, \<^verbatim>\<open>meta\<close> and the construction of the route configuration. Rendering the root
  application returns as well, at every location and whatever the path matching of the
  router answers.
\<close>

theorem operations_never_throw:
  "(\<exists>tree. App props w = Inr (tree, w))
 \<and> (\<exists>page. Home props w = Inr (page, w))
 \<and> (\<exists>page. home_Home props w = Inr (page, w))
 \<and> (\<exists>ds. meta args w = Inr (ds, w))
 \<and> (\<exists>cfg. routes w = Inr (cfg, w))
 \<and> (\<exists>pages. render_App matchPath location w = Inr (pages, w))"
proof -
  have "\<exists>pages. render_App matchPath location w = Inr (pages, w)"
  proof (cases "matchPath ''/'' location")
    case True
    from render_App_matched [of matchPath location w] True show ?thesis by blast
  next
    case False
    from render_App_unmatched [of matchPath location w] False show ?thesis by blast
  qed
  then show ?thesis
    by (simp add: App_returns Home_returns home_Home_returns meta_returns routes_returns)
qed

text \<open>
  C8. For every location other than \<^verbatim>\<open>/\<close>, rendering the root application mounts no page
  component: the route table of \<^verbatim>\<open>App\<close> has no entry that such a location resolves to, and
  the router mounts nothing.
\<close>

theorem no_page_off_root:
  assumes "location \<noteq> ''/''"
  shows "render_App literal_path location w = Inr ([], w)
       \<and> (\<exists>tree. App props w = Inr (tree, w)
            \<and> resolve literal_path (route_entries tree) location = None
            \<and> mounted literal_path location tree = [])"
proof -
  from assms have off: "\<not> literal_path ''/'' location"
    by (auto simp: literal_path_def)
  then show ?thesis
    by (simp add: render_App_unmatched App_returns)
qed

theorem no_page_off_root_witness:
  "render_App literal_path ''/about'' () = Inr ([], ())
 \<and> (\<exists>tree. App () () = Inr (tree, ())
      \<and> resolve literal_path (route_entries tree) ''/about'' = None
      \<and> mounted literal_path ''/about'' tree = [])"
proof -
  have off: "''/about'' \<noteq> ''/''" by simp
  from no_page_off_root [OF off] show ?thesis .
qed

text \<open>
  C9. For every argument, \<^verbatim>\<open>meta\<close> returns exactly two entries in this order: a title
  entry with the value "My Easel App", then a description entry with the content
  "Welcome to My Easel App!".
\<close>

theorem meta_entries:
  "\<exists>ds. meta args w = Inr (ds, w)
     \<and> length ds = 2
     \<and> ds ! 0 = [(''title'', ''My Easel App'')]
     \<and> ds ! 1 = [(''name'', ''description''), (''content'', ''Welcome to My Easel App!'')]"
  by (simp add: meta_returns)

text \<open>
  C10. The heading that \<open>Home\<close> of \<^verbatim>\<open>pages/Home.tsx\<close> renders carries the text
  "My Easel App", which is the title that \<^verbatim>\<open>meta\<close> of the home route declares.
\<close>

theorem heading_matches_title:
  "\<exists>page ds title.
      Home props w = Inr (page, w) \<and> meta args w' = Inr (ds, w')
    \<and> map_of (ds ! 0) ''title'' = Some title
    \<and> map text_of (headings page) = [title]
    \<and> title = ''My Easel App''"
  by (simp add: Home_returns meta_returns headings_def)

end
